theory Spec2Isabelle
  imports Main "HOL-Library.Word"
begin

section \<open>JavaScript values and the binding's object heap\<close>

text \<open>
  The sources under verification are the wasm-bindgen glue
  \<^verbatim>\<open>shinkai_message_wasm_bg.js\<close>, its declaration file and the TypeScript wrapper
  \<^verbatim>\<open>ShinkaiMessageWrapper.ts\<close>. The glue keeps JavaScript values in an array
  \<^verbatim>\<open>heap\<close> and hands their indices to the WebAssembly module; the module hands back
  pointers into its own memory and heap indices of the objects it created.
\<close>

datatype jsval =
    JUndefined
  | JNull
  | JBool bool
  | JNum int
  | JStr string
  | JArr "jsval list"
  | JObj "(string \<times> jsval) list"
  | JError string
  | JFunction string

text \<open>
  \<^verbatim>\<open>const heap = new Array(128).fill(undefined); heap.push(undefined, null, true, false);
  let heap_next = heap.length; let stack_pointer = 128;\<close>
  The last field is the state of the WebAssembly instance, which the glue never inspects.
\<close>

record 'm world =
  heap :: "jsval list"
  heap_next :: int
  stack_pointer :: int
  memory :: 'm

definition init_world :: "'m \<Rightarrow> 'm world" where
  "init_world m =
     \<lparr>heap = replicate 128 JUndefined @ [JUndefined, JNull, JBool True, JBool False],
      heap_next = 132, stack_pointer = 128, memory = m\<rparr>"

text \<open>Reading an array outside its bounds gives \<^verbatim>\<open>undefined\<close>.\<close>

definition js_get :: "jsval list \<Rightarrow> int \<Rightarrow> jsval" where
  "js_get xs i = (if 0 \<le> i \<and> i < int (length xs) then xs ! nat i else JUndefined)"

text \<open>
  Writing past the end extends the array, the gap reading as \<^verbatim>\<open>undefined\<close>; a negative
  index sets a property that is no element.
\<close>

definition js_set :: "jsval list \<Rightarrow> int \<Rightarrow> jsval \<Rightarrow> jsval list" where
  "js_set xs i v =
     (if i < 0 then xs
      else if i < int (length xs) then xs[nat i := v]
      else xs @ replicate (nat i - length xs) JUndefined @ [v])"

text \<open>\<^verbatim>\<open>function getObject(idx) { return heap[idx]; }\<close>\<close>

definition getObject :: "'m world \<Rightarrow> int \<Rightarrow> jsval" where
  "getObject w idx = js_get (heap w) idx"

text \<open>
  A free slot holds the index of the next free slot as a number. A slot that is read as
  a link while it holds no number cannot arise while the free list is intact; the model
  reads it as 0.
\<close>

fun link_of :: "jsval \<Rightarrow> int" where
  "link_of (JNum n) = n"
| "link_of _ = 0"

text \<open>
  \<^verbatim>\<open>function addHeapObject(obj) {
      if (heap_next === heap.length) heap.push(heap.length + 1);
      const idx = heap_next;
      heap_next = heap[idx];
      heap[idx] = obj;
      return idx; }\<close>
\<close>

definition addHeapObject :: "'m world \<Rightarrow> jsval \<Rightarrow> int \<times> 'm world" where
  "addHeapObject w obj =
     (let h = (if heap_next w = int (length (heap w))
               then heap w @ [JNum (int (length (heap w)) + 1)] else heap w);
          idx = heap_next w
      in (idx, w\<lparr>heap := js_set h idx obj, heap_next := link_of (js_get h idx)\<rparr>))"

text \<open>
  \<^verbatim>\<open>function dropObject(idx) {
      if (idx < 132) return;
      heap[idx] = heap_next;
      heap_next = idx; }\<close>
\<close>

definition dropObject :: "'m world \<Rightarrow> int \<Rightarrow> 'm world" where
  "dropObject w idx =
     (if idx < 132 then w
      else w\<lparr>heap := js_set (heap w) idx (JNum (heap_next w)), heap_next := idx\<rparr>)"

text \<open>
  \<^verbatim>\<open>function takeObject(idx) { const ret = getObject(idx); dropObject(idx); return ret; }\<close>
\<close>

definition takeObject :: "'m world \<Rightarrow> int \<Rightarrow> jsval \<times> 'm world" where
  "takeObject w idx = (getObject w idx, dropObject w idx)"

text \<open>
  \<^verbatim>\<open>function addBorrowedObject(obj) {
      if (stack_pointer == 1) throw new Error('out of js stack');
      heap[--stack_pointer] = obj;
      return stack_pointer; }\<close>
\<close>

definition addBorrowedObject :: "'m world \<Rightarrow> jsval \<Rightarrow> jsval + int \<times> 'm world" where
  "addBorrowedObject w obj =
     (if stack_pointer w = 1 then Inl (JError ''out of js stack'')
      else Inr (stack_pointer w - 1,
                w\<lparr>heap := js_set (heap w) (stack_pointer w - 1) obj,
                  stack_pointer := stack_pointer w - 1\<rparr>))"

text \<open>
  The \<^verbatim>\<open>finally\<close> block of a constructor that borrowed an object:
  \<^verbatim>\<open>heap[stack_pointer++] = undefined;\<close>
\<close>

definition release_borrowed :: "'m world \<Rightarrow> 'm world" where
  "release_borrowed w =
     w\<lparr>heap := js_set (heap w) (stack_pointer w) JUndefined,
       stack_pointer := stack_pointer w + 1\<rparr>"

section \<open>The return area and the exports of the module\<close>

text \<open>
  An export that can fail writes 32-bit words into a return area, which the glue reads
  back with \<^verbatim>\<open>getInt32Memory0()[retptr / 4 + i]\<close>: a signed number each.
\<close>

record ret_area =
  r0 :: "32 word"
  r1 :: "32 word"
  r2 :: "32 word"
  r3 :: "32 word"

text \<open>
  The exports the modelled glue calls. The module itself is compiled Rust that is not among
  the sources, so each export is a parameter: a function of the world (it may call back
  into \<^const>\<open>addHeapObject\<close>) and of its arguments, returning normally: a trap of the
  module, as on a handle that was freed, is outside the model. A string argument stands
  for the pointer and length \<^verbatim>\<open>passStringToWasm0\<close> produces (the UTF-8 bytes of the
  JavaScript string), a string result for what \<^verbatim>\<open>getStringFromWasm0\<close> decodes.
\<close>

record 'm exports =
  shinkainamewrapper_extract_profile :: "'m world \<Rightarrow> nat \<Rightarrow> ret_area \<times> 'm world"
  shinkainamewrapper_extract_node :: "'m world \<Rightarrow> nat \<Rightarrow> 32 word \<times> 'm world"
  shinkaimessagewrapper_fromJsValue :: "'m world \<Rightarrow> int \<Rightarrow> ret_area \<times> 'm world"
  shinkaimessagewrapper_from_json_str :: "'m world \<Rightarrow> string \<Rightarrow> ret_area \<times> 'm world"
  shinkaimessagewrapper_message_body :: "'m world \<Rightarrow> nat \<Rightarrow> ret_area \<times> 'm world"
  shinkaimessagewrapper_external_metadata :: "'m world \<Rightarrow> nat \<Rightarrow> ret_area \<times> 'm world"
  shinkaimessagewrapper_encryption :: "'m world \<Rightarrow> nat \<Rightarrow> string \<times> 'm world"
  shinkaimessagewrapper_calculate_hash :: "'m world \<Rightarrow> nat \<Rightarrow> string \<times> 'm world"

text \<open>
  Every class of the glue wraps a pointer the same way:
  \<^verbatim>\<open>static __wrap(ptr) { ptr = ptr >>> 0;
      const obj = Object.create(ShinkaiNameWrapper.prototype);
      obj.__wbg_ptr = ptr; return obj; }\<close>
  The unsigned shift reads the 32 bits as a natural number.
\<close>

datatype js_class = ShinkaiNameWrapper | ShinkaiMessageWrapper

datatype wrapper = Wrapper (prototype: js_class) (wbg_ptr: nat)

definition wrap :: "js_class \<Rightarrow> 32 word \<Rightarrow> wrapper" where
  "wrap c ptr = Wrapper c (unat ptr)"

section \<open>The class ShinkaiNameWrapper of the glue\<close>

text \<open>
  \<^verbatim>\<open>extract_profile() {
      try {
          const retptr = wasm.__wbindgen_add_to_stack_pointer(-16);
          wasm.shinkainamewrapper_extract_profile(retptr, this.__wbg_ptr);
          var r0 = ...; var r1 = ...; var r2 = ...;
          if (r2) { throw takeObject(r1); }
          return ShinkaiNameWrapper.__wrap(r0);
      } finally { wasm.__wbindgen_add_to_stack_pointer(16); } }\<close>
\<close>

definition extract_profile ::
  "'m exports \<Rightarrow> 'm world \<Rightarrow> wrapper \<Rightarrow> (jsval + wrapper) \<times> 'm world" where
  "extract_profile wasm w this =
     (case shinkainamewrapper_extract_profile wasm w (wbg_ptr this) of
        (ra, w1) \<Rightarrow>
          if r2 ra \<noteq> 0
          then (case takeObject w1 (sint (r1 ra)) of (e, w2) \<Rightarrow> (Inl e, w2))
          else (Inr (wrap ShinkaiNameWrapper (r0 ra)), w1))"

text \<open>
  \<^verbatim>\<open>extract_node() {
      const ret = wasm.shinkainamewrapper_extract_node(this.__wbg_ptr);
      return ShinkaiNameWrapper.__wrap(ret); }\<close>
  The result type is the one of \<^const>\<open>extract_profile\<close>, so that the two can be compared;
  the source has no \<^verbatim>\<open>throw\<close> here, so no branch produces \<^const>\<open>Inl\<close>.
\<close>

definition extract_node ::
  "'m exports \<Rightarrow> 'm world \<Rightarrow> wrapper \<Rightarrow> (jsval + wrapper) \<times> 'm world" where
  "extract_node wasm w this =
     (case shinkainamewrapper_extract_node wasm w (wbg_ptr this) of
        (ret, w1) \<Rightarrow> (Inr (wrap ShinkaiNameWrapper ret), w1))"

section \<open>The class ShinkaiMessageWrapper of the glue\<close>

text \<open>
  \<^verbatim>\<open>constructor(shinkai_message_js) {
      try {
          const retptr = wasm.__wbindgen_add_to_stack_pointer(-16);
          wasm.shinkaimessagewrapper_fromJsValue(retptr, addBorrowedObject(shinkai_message_js));
          var r0 = ...; var r1 = ...; var r2 = ...;
          if (r2) { throw takeObject(r1); }
          return ShinkaiMessageWrapper.__wrap(r0);
      } finally {
          wasm.__wbindgen_add_to_stack_pointer(16);
          heap[stack_pointer++] = undefined;
      } }\<close>
  The constructor has one parameter: further arguments of a call are dropped.
\<close>

definition ShinkaiMessageWrapper_constructor ::
  "'m exports \<Rightarrow> 'm world \<Rightarrow> jsval \<Rightarrow> (jsval + wrapper) \<times> 'm world" where
  "ShinkaiMessageWrapper_constructor wasm w shinkai_message_js =
     (case addBorrowedObject w shinkai_message_js of
        Inl e \<Rightarrow> (Inl e, release_borrowed w)
      | Inr (idx, w1) \<Rightarrow>
          (case shinkaimessagewrapper_fromJsValue wasm w1 idx of
             (ra, w2) \<Rightarrow>
               if r2 ra \<noteq> 0
               then (case takeObject w2 (sint (r1 ra)) of
                       (e, w3) \<Rightarrow> (Inl e, release_borrowed w3))
               else (Inr (wrap ShinkaiMessageWrapper (r0 ra)), release_borrowed w2)))"

text \<open>
  \<^verbatim>\<open>static from_json_str(s) {
      try {
          const retptr = wasm.__wbindgen_add_to_stack_pointer(-16);
          const ptr0 = passStringToWasm0(s, wasm.__wbindgen_malloc, wasm.__wbindgen_realloc);
          const len0 = WASM_VECTOR_LEN;
          wasm.shinkaimessagewrapper_from_json_str(retptr, ptr0, len0);
          var r0 = ...; var r1 = ...; var r2 = ...;
          if (r2) { throw takeObject(r1); }
          return ShinkaiMessageWrapper.__wrap(r0);
      } finally { wasm.__wbindgen_add_to_stack_pointer(16); } }\<close>
\<close>

definition ShinkaiMessageWrapper_from_json_str ::
  "'m exports \<Rightarrow> 'm world \<Rightarrow> string \<Rightarrow> (jsval + wrapper) \<times> 'm world" where
  "ShinkaiMessageWrapper_from_json_str wasm w s =
     (case shinkaimessagewrapper_from_json_str wasm w s of
        (ra, w1) \<Rightarrow>
          if r2 ra \<noteq> 0
          then (case takeObject w1 (sint (r1 ra)) of (e, w2) \<Rightarrow> (Inl e, w2))
          else (Inr (wrap ShinkaiMessageWrapper (r0 ra)), w1))"

text \<open>
  \<^verbatim>\<open>get message_body() {
      try {
          const retptr = wasm.__wbindgen_add_to_stack_pointer(-16);
          wasm.shinkaimessagewrapper_message_body(retptr, this.__wbg_ptr);
          var r0 = ...; var r1 = ...; var r2 = ...;
          if (r2) { throw takeObject(r1); }
          return takeObject(r0);
      } finally { wasm.__wbindgen_add_to_stack_pointer(16); } }\<close>
\<close>

definition ShinkaiMessageWrapper_message_body ::
  "'m exports \<Rightarrow> 'm world \<Rightarrow> wrapper \<Rightarrow> (jsval + jsval) \<times> 'm world" where
  "ShinkaiMessageWrapper_message_body wasm w this =
     (case shinkaimessagewrapper_message_body wasm w (wbg_ptr this) of
        (ra, w1) \<Rightarrow>
          if r2 ra \<noteq> 0
          then (case takeObject w1 (sint (r1 ra)) of (e, w2) \<Rightarrow> (Inl e, w2))
          else (case takeObject w1 (sint (r0 ra)) of (v, w2) \<Rightarrow> (Inr v, w2)))"

text \<open>The getter \<^verbatim>\<open>external_metadata\<close> has the same body, on its own export.\<close>

definition ShinkaiMessageWrapper_external_metadata ::
  "'m exports \<Rightarrow> 'm world \<Rightarrow> wrapper \<Rightarrow> (jsval + jsval) \<times> 'm world" where
  "ShinkaiMessageWrapper_external_metadata wasm w this =
     (case shinkaimessagewrapper_external_metadata wasm w (wbg_ptr this) of
        (ra, w1) \<Rightarrow>
          if r2 ra \<noteq> 0
          then (case takeObject w1 (sint (r1 ra)) of (e, w2) \<Rightarrow> (Inl e, w2))
          else (case takeObject w1 (sint (r0 ra)) of (v, w2) \<Rightarrow> (Inr v, w2)))"

text \<open>
  \<^verbatim>\<open>get encryption() {
      ...
          wasm.shinkaimessagewrapper_encryption(retptr, this.__wbg_ptr);
          var r0 = ...; var r1 = ...;
          return getStringFromWasm0(r0, r1);
      ... }\<close>
  and \<^verbatim>\<open>calculate_hash()\<close> likewise: both return a string and have no error branch.
\<close>

definition ShinkaiMessageWrapper_encryption ::
  "'m exports \<Rightarrow> 'm world \<Rightarrow> wrapper \<Rightarrow> string \<times> 'm world" where
  "ShinkaiMessageWrapper_encryption wasm w this =
     shinkaimessagewrapper_encryption wasm w (wbg_ptr this)"

definition ShinkaiMessageWrapper_calculate_hash ::
  "'m exports \<Rightarrow> 'm world \<Rightarrow> wrapper \<Rightarrow> string \<times> 'm world" where
  "ShinkaiMessageWrapper_calculate_hash wasm w this =
     shinkaimessagewrapper_calculate_hash wasm w (wbg_ptr this)"

text \<open>
  Reading a property of an object of the class. The class declares the accessors
  \<^verbatim>\<open>message_body\<close>, \<^verbatim>\<open>external_metadata\<close> and \<^verbatim>\<open>encryption\<close> and the methods listed
  below; \<^verbatim>\<open>__wrap\<close> sets the one own property \<^verbatim>\<open>__wbg_ptr\<close>. Any other name is looked
  up in vain and reads as \<^verbatim>\<open>undefined\<close> (the members inherited from
  \<^verbatim>\<open>Object.prototype\<close>, all functions, are left out).
\<close>

definition ShinkaiMessageWrapper_methods :: "string list" where
  "ShinkaiMessageWrapper_methods =
     [''constructor'', ''__destroy_into_raw'', ''free'', ''to_jsvalue'', ''to_json_str'',
      ''calculate_hash'']"

definition ShinkaiMessageWrapper_get ::
  "'m exports \<Rightarrow> 'm world \<Rightarrow> wrapper \<Rightarrow> string \<Rightarrow> (jsval + jsval) \<times> 'm world" where
  "ShinkaiMessageWrapper_get wasm w this name =
     (if name = ''message_body'' then ShinkaiMessageWrapper_message_body wasm w this
      else if name = ''external_metadata'' then ShinkaiMessageWrapper_external_metadata wasm w this
      else if name = ''encryption''
      then (case ShinkaiMessageWrapper_encryption wasm w this of (s, w1) \<Rightarrow> (Inr (JStr s), w1))
      else if name = ''__wbg_ptr'' then (Inr (JNum (int (wbg_ptr this))), w)
      else if name \<in> set ShinkaiMessageWrapper_methods then (Inr (JFunction name), w)
      else (Inr JUndefined, w))"

section \<open>The TypeScript wrapper ShinkaiMessageWrapper.ts\<close>

text \<open>
  Member access \<^verbatim>\<open>message.name\<close> on a value that came out of \<^verbatim>\<open>JSON.parse\<close>: a
  \<^verbatim>\<open>TypeError\<close> on \<^verbatim>\<open>null\<close> and \<^verbatim>\<open>undefined\<close>, the property of an object (an object
  has each key once), \<^verbatim>\<open>undefined\<close> where there is none. The built-in members of strings
  and arrays are not modelled; the wrapper reads none of them.
\<close>

fun js_member :: "jsval \<Rightarrow> string \<Rightarrow> jsval + jsval" where
  "js_member JUndefined name = Inl (JError ''TypeError'')"
| "js_member JNull name = Inl (JError ''TypeError'')"
| "js_member (JObj fs) name = Inr (case map_of fs name of None \<Rightarrow> JUndefined | Some v \<Rightarrow> v)"
| "js_member _ name = Inr JUndefined"

text \<open>
  \<^verbatim>\<open>export class ShinkaiMessageWrapper {
    private wasmWrapper: ShinkaiMessageWrapperWASM;
    constructor(message: ShinkaiMessage) {
      this.wasmWrapper = new ShinkaiMessageWrapperWASM(message.body,
        message.external_metadata, mapEncryptionMethod(message.encryption));
    }\<close>
  The three arguments are evaluated from left to right, then the constructor of the glue
  runs on the first. \<^verbatim>\<open>mapEncryptionMethod\<close> comes from \<^verbatim>\<open>utils/wasm_helpers.js\<close>, which
  is not among the sources: it is a parameter, and may throw.
\<close>

datatype ts_wrapper = TsShinkaiMessageWrapper (wasmWrapper: wrapper)

definition ts_constructor ::
  "'m exports \<Rightarrow> (jsval \<Rightarrow> jsval + jsval) \<Rightarrow> 'm world \<Rightarrow> jsval \<Rightarrow> (jsval + ts_wrapper) \<times> 'm world" where
  "ts_constructor wasm mapEncryptionMethod w message =
     (case js_member message ''body'' of
        Inl e \<Rightarrow> (Inl e, w)
      | Inr arg0 \<Rightarrow>
          (case js_member message ''external_metadata'' of
             Inl e \<Rightarrow> (Inl e, w)
           | Inr arg1 \<Rightarrow>
               (case js_member message ''encryption'' of
                  Inl e \<Rightarrow> (Inl e, w)
                | Inr enc \<Rightarrow>
                    (case mapEncryptionMethod enc of
                       Inl e \<Rightarrow> (Inl e, w)
                     | Inr arg2 \<Rightarrow>
                         (case ShinkaiMessageWrapper_constructor wasm w arg0 of
                            (Inl e, w1) \<Rightarrow> (Inl e, w1)
                          | (Inr h, w1) \<Rightarrow> (Inr (TsShinkaiMessageWrapper h), w1))))))"

text \<open>
  \<^verbatim>\<open>static from_json_str(s: string): ShinkaiMessageWrapper {
      const message: ShinkaiMessage = JSON.parse(s);
      return new ShinkaiMessageWrapper(message); }\<close>
  \<^verbatim>\<open>JSON.parse\<close> is the built-in of the JavaScript engine: a parameter, throwing on text
  that is no JSON.
\<close>

definition ts_from_json_str ::
  "'m exports \<Rightarrow> (jsval \<Rightarrow> jsval + jsval) \<Rightarrow> (string \<Rightarrow> jsval + jsval) \<Rightarrow>
   'm world \<Rightarrow> string \<Rightarrow> (jsval + ts_wrapper) \<times> 'm world" where
  "ts_from_json_str wasm mapEncryptionMethod JSON_parse w s =
     (case JSON_parse s of
        Inl e \<Rightarrow> (Inl e, w)
      | Inr message \<Rightarrow> ts_constructor wasm mapEncryptionMethod w message)"

text \<open>
  \<^verbatim>\<open>get body(): Body { return this.wasmWrapper.body; }
  get encryption(): string { return this.wasmWrapper.encryption; }
  get external_metadata(): ExternalMetadata { return this.wasmWrapper.external_metadata; }
  calculate_hash(): string { return this.wasmWrapper.calculate_hash(); }\<close>
\<close>

definition ts_body :: "'m exports \<Rightarrow> 'm world \<Rightarrow> ts_wrapper \<Rightarrow> (jsval + jsval) \<times> 'm world" where
  "ts_body wasm w this = ShinkaiMessageWrapper_get wasm w (wasmWrapper this) ''body''"

definition ts_encryption :: "'m exports \<Rightarrow> 'm world \<Rightarrow> ts_wrapper \<Rightarrow> (jsval + jsval) \<times> 'm world" where
  "ts_encryption wasm w this = ShinkaiMessageWrapper_get wasm w (wasmWrapper this) ''encryption''"

definition ts_external_metadata ::
  "'m exports \<Rightarrow> 'm world \<Rightarrow> ts_wrapper \<Rightarrow> (jsval + jsval) \<times> 'm world" where
  "ts_external_metadata wasm w this =
     ShinkaiMessageWrapper_get wasm w (wasmWrapper this) ''external_metadata''"

definition ts_calculate_hash :: "'m exports \<Rightarrow> 'm world \<Rightarrow> ts_wrapper \<Rightarrow> string \<times> 'm world" where
  "ts_calculate_hash wasm w this = ShinkaiMessageWrapper_calculate_hash wasm w (wasmWrapper this)"

section \<open>The enum EncryptionMethod of the declaration file\<close>

text \<open>
  \<^verbatim>\<open>export enum EncryptionMethod {
    DiffieHellmanChaChaPoly1305 = 0,
    None = 1,
  }\<close>
  The member \<^verbatim>\<open>None\<close> is written \<open>None_method\<close>, the name being taken by the option type.
  A numeric enum of TypeScript is an object that maps each member name to its number
  (\<open>ordinal\<close>) and each number back to its member (\<open>of_ordinal\<close>, with the member's
  name \<open>method_name\<close>); a number that is no member's maps to \<^verbatim>\<open>undefined\<close>.
\<close>

datatype EncryptionMethod = DiffieHellmanChaChaPoly1305 | None_method

fun ordinal :: "EncryptionMethod \<Rightarrow> int" where
  "ordinal DiffieHellmanChaChaPoly1305 = 0"
| "ordinal None_method = 1"

definition of_ordinal :: "int \<Rightarrow> EncryptionMethod option" where
  "of_ordinal n =
     (if n = 0 then Some DiffieHellmanChaChaPoly1305
      else if n = 1 then Some None_method
      else None)"

fun method_name :: "EncryptionMethod \<Rightarrow> string" where
  "method_name DiffieHellmanChaChaPoly1305 = ''DiffieHellmanChaChaPoly1305''"
| "method_name None_method = ''None''"

section \<open>The wire envelope and a module that implements it\<close>

text \<open>
  Modelled from the spec: the envelope the module keeps behind a
  \<^verbatim>\<open>ShinkaiMessageWrapper\<close> pointer; the Rust source of the module is missing. The wire
  envelope is "a canonical serialized structure with fields body, external_metadata,
  encryption (ordinal: 0 = Diffie-Hellman/ChaCha20-Poly1305 AEAD, 1 = none)" (section 6).
  Body and external metadata are kept as the JavaScript values they are read from: no
  statement below depends on what is inside them.
\<close>

record envelope =
  body :: jsval
  external_metadata :: jsval
  encryption :: EncryptionMethod

text \<open>
  Modelled from the spec: serialization of the missing module, writing the three fields
  of section 6, the method as its ordinal.
\<close>

definition to_jsvalue :: "envelope \<Rightarrow> jsval" where
  "to_jsvalue m =
     JObj [(''body'', body m), (''external_metadata'', external_metadata m),
           (''encryption'', JNum (ordinal (encryption m)))]"

text \<open>
  Modelled from the spec: deserialization of the missing module. Each of the three fields
  of section 6 must be there ("no default-filling on the wire"), and the ordinal must be a
  member's.
\<close>

definition fromJsValue :: "jsval \<Rightarrow> string + envelope" where
  "fromJsValue v =
     (case v of
        JObj fs \<Rightarrow>
          (case map_of fs ''body'' of
             None \<Rightarrow> Inl ''missing field body''
           | Some b \<Rightarrow>
               (case map_of fs ''external_metadata'' of
                  None \<Rightarrow> Inl ''missing field external_metadata''
                | Some x \<Rightarrow>
                    (case map_of fs ''encryption'' of
                       None \<Rightarrow> Inl ''missing field encryption''
                     | Some (JNum n) \<Rightarrow>
                         (case of_ordinal n of
                            None \<Rightarrow> Inl ''unknown encryption method''
                          | Some e \<Rightarrow>
                              Inr \<lparr>body = b, external_metadata = x, encryption = e\<rparr>)
                     | Some _ \<Rightarrow> Inl ''encryption is no ordinal'')))
      | _ \<Rightarrow> Inl ''no envelope'')"

text \<open>
  Modelled from the spec: the memory of the missing module, as the table of the envelopes
  it has allocated, by pointer.
\<close>

type_synonym module_memory = "(nat \<times> envelope) list"

text \<open>
  Modelled from the spec: how the missing module reports a failure. The glue shows the
  protocol from its side: the error object is put on the heap by the import
  \<^verbatim>\<open>__wbindgen_error_new\<close> (\<^verbatim>\<open>return addHeapObject(new Error(...))\<close>), its index is the
  word \<^verbatim>\<open>r1\<close>, and \<^verbatim>\<open>r2\<close> is set.
\<close>

definition throw_error :: "module_memory world \<Rightarrow> string \<Rightarrow> ret_area \<times> module_memory world" where
  "throw_error w msg =
     (case addHeapObject w (JError msg) of
        (idx, w1) \<Rightarrow> (\<lparr>r0 = 0, r1 = word_of_int idx, r2 = 1, r3 = 0\<rparr>, w1))"

text \<open>
  Modelled from the spec: how the missing module returns a JavaScript value, its heap
  index in \<^verbatim>\<open>r0\<close>, which the glue takes with \<^verbatim>\<open>takeObject(r0)\<close>.
\<close>

definition return_object :: "module_memory world \<Rightarrow> jsval \<Rightarrow> ret_area \<times> module_memory world" where
  "return_object w v =
     (case addHeapObject w v of
        (idx, w1) \<Rightarrow> (\<lparr>r0 = word_of_int idx, r1 = 0, r2 = 0, r3 = 0\<rparr>, w1))"

text \<open>
  Modelled from the spec: how the missing module returns a new envelope, its pointer in
  \<^verbatim>\<open>r0\<close>, which the glue wraps.
\<close>

definition return_envelope :: "module_memory world \<Rightarrow> envelope \<Rightarrow> ret_area \<times> module_memory world" where
  "return_envelope w m =
     (let ptr = Suc (length (memory w))
      in (\<lparr>r0 = word_of_nat ptr, r1 = 0, r2 = 0, r3 = 0\<rparr>,
          w\<lparr>memory := memory w @ [(ptr, m)]\<rparr>))"

text \<open>
  Modelled from the spec: the exports of the missing module that the class
  \<^verbatim>\<open>ShinkaiMessageWrapper\<close> calls. Both ways in build the envelope of section 6, from a
  JavaScript value or from its text; the accessors read it back; the hash is the
  "content hash computed over the canonical serialized form" (section 3). The parser and
  the printer of JSON text and the hash function are libraries: parameters. The two
  exports of identity names are not the subject here and refuse.
\<close>

definition spec_module ::
  "(string \<Rightarrow> string + jsval) \<Rightarrow> (jsval \<Rightarrow> string) \<Rightarrow> (string \<Rightarrow> string) \<Rightarrow>
   module_memory exports" where
  "spec_module json_parse json_print content_hash =
     \<lparr>shinkainamewrapper_extract_profile = (\<lambda>w p. throw_error w ''not modelled''),
      shinkainamewrapper_extract_node = (\<lambda>w p. (0, w)),
      shinkaimessagewrapper_fromJsValue =
        (\<lambda>w idx. case fromJsValue (getObject w idx) of
                    Inl msg \<Rightarrow> throw_error w msg
                  | Inr m \<Rightarrow> return_envelope w m),
      shinkaimessagewrapper_from_json_str =
        (\<lambda>w s. case json_parse s of
                  Inl msg \<Rightarrow> throw_error w msg
                | Inr v \<Rightarrow>
                    (case fromJsValue v of
                       Inl msg \<Rightarrow> throw_error w msg
                     | Inr m \<Rightarrow> return_envelope w m)),
      shinkaimessagewrapper_message_body =
        (\<lambda>w p. case map_of (memory w) p of
                  None \<Rightarrow> throw_error w ''null pointer passed to rust''
                | Some m \<Rightarrow> return_object w (body m)),
      shinkaimessagewrapper_external_metadata =
        (\<lambda>w p. case map_of (memory w) p of
                  None \<Rightarrow> throw_error w ''null pointer passed to rust''
                | Some m \<Rightarrow> return_object w (external_metadata m)),
      shinkaimessagewrapper_encryption =
        (\<lambda>w p. case map_of (memory w) p of
                  None \<Rightarrow> ([], w)
                | Some m \<Rightarrow> (method_name (encryption m), w)),
      shinkaimessagewrapper_calculate_hash =
        (\<lambda>w p. case map_of (memory w) p of
                  None \<Rightarrow> ([], w)
                | Some m \<Rightarrow> (content_hash (json_print (to_jsvalue m)), w))\<rparr>"

section \<open>A serialized envelope\<close>

text \<open>
  An unencrypted ping from alice to bob in the wire form of section 6, as text and as the
  value the text denotes.
\<close>

definition ping_body :: jsval where
  "ping_body =
     JObj [(''unencrypted'',
            JObj [(''message_data'',
                   JObj [(''internal_metadata'',
                          JObj [(''sender_subidentity'', JStr []),
                                (''recipient_subidentity'', JStr []),
                                (''encryption'', JNum 1)]),
                         (''raw_content'', JStr ''ping''),
                         (''schema'', JStr ''TextContent'')])])]"

definition ping_external_metadata :: jsval where
  "ping_external_metadata =
     JObj [(''sender'', JStr ''alice''), (''recipient'', JStr ''bob''),
           (''scheduled_time'', JStr ''20230702T20533481345''),
           (''signature'', JStr [])]"

definition ping_message :: jsval where
  "ping_message =
     JObj [(''body'', ping_body), (''external_metadata'', ping_external_metadata),
           (''encryption'', JNum 1)]"

definition ping_text :: string where
  "ping_text = ''{\"body\":{\"unencrypted\":{\"message_data\":{\"internal_metadata\":{\"sender_subidentity\":\"\",\"recipient_subidentity\":\"\",\"encryption\":1},\"raw_content\":\"ping\",\"schema\":\"TextContent\"}}},\"external_metadata\":{\"sender\":\"alice\",\"recipient\":\"bob\",\"scheduled_time\":\"20230702T20533481345\",\"signature\":\"\"},\"encryption\":1}''"

text \<open>
  What \<^verbatim>\<open>JSON.parse\<close> and the module's own parser of JSON text return on that text. On
  any other text they are made to refuse; no statement reads them there.
\<close>

definition JSON_parse_at_ping :: "string \<Rightarrow> jsval + jsval" where
  "JSON_parse_at_ping s =
     (if s = ping_text then Inr ping_message else Inl (JError ''SyntaxError''))"

definition json_parse_at_ping :: "string \<Rightarrow> string + jsval" where
  "json_parse_at_ping s =
     (if s = ping_text then Inr ping_message else Inl ''expected value'')"

section \<open>Unfolding the glue and the module\<close>

lemmas heap_defs = addBorrowedObject_def release_borrowed_def takeObject_def getObject_def
  dropObject_def addHeapObject_def js_get_def js_set_def init_world_def

lemmas glue_defs = ShinkaiMessageWrapper_constructor_def ShinkaiMessageWrapper_from_json_str_def
  ShinkaiMessageWrapper_message_body_def ShinkaiMessageWrapper_external_metadata_def
  ShinkaiMessageWrapper_encryption_def wrap_def

lemmas module_defs = spec_module_def throw_error_def return_object_def return_envelope_def
  fromJsValue_def of_ordinal_def

lemmas ping_defs = JSON_parse_at_ping_def json_parse_at_ping_def ping_message_def ping_body_def
  ping_external_metadata_def

section \<open>Node and profile extraction\<close>

text \<open>
  Claim C9. On every identity-name handle and whatever the module does, the binding
  \<^verbatim>\<open>extract_node\<close> returns a name and never throws, since it has no error branch.
  The binding \<^verbatim>\<open>extract_profile\<close> throws exactly when the module sets the error word
  \<^verbatim>\<open>r2\<close> of the return area, and there is a module behaviour under which it does:
  node extraction is total, profile extraction is partial.
\<close>

theorem extract_node_total_extract_profile_partial:
  "(\<forall>(wasm :: 'm exports) w this. \<exists>n. fst (extract_node wasm w this) = Inr n) \<and>
   (\<forall>(wasm :: 'm exports) w this.
      (\<exists>e. fst (extract_profile wasm w this) = Inl e) =
      (r2 (fst (shinkainamewrapper_extract_profile wasm w (wbg_ptr this))) \<noteq> 0)) \<and>
   (\<exists>(wasm :: 'm exports) w this e. fst (extract_profile wasm w this) = Inl e)"
proof (intro conjI allI)
  fix wasm :: "'m exports" and w this
  show "\<exists>n. fst (extract_node wasm w this) = Inr n"
    by (simp add: extract_node_def split: prod.split)
  show "(\<exists>e. fst (extract_profile wasm w this) = Inl e) =
        (r2 (fst (shinkainamewrapper_extract_profile wasm w (wbg_ptr this))) \<noteq> 0)"
    by (simp add: extract_profile_def split: prod.split)
next
  define refusing :: "'m exports" where
    "refusing = undefined\<lparr>shinkainamewrapper_extract_profile :=
                   (\<lambda>w p. (\<lparr>r0 = 0, r1 = 0, r2 = 1, r3 = 0\<rparr>, w))\<rparr>"
  have "fst (extract_profile refusing w (Wrapper ShinkaiNameWrapper 0))
        = Inl (getObject w 0)" for w :: "'m world"
    by (simp add: extract_profile_def refusing_def takeObject_def)
  then show "\<exists>(wasm :: 'm exports) w this e. fst (extract_profile wasm w this) = Inl e"
    by blast
qed

section \<open>The encryption method of an envelope, written and read back\<close>

lemma of_ordinal_ordinal: "of_ordinal (ordinal e) = Some e"
  by (cases e) (simp_all add: of_ordinal_def)

lemma fromJsValue_to_jsvalue: "fromJsValue (to_jsvalue m) = Inr m"
  by (simp add: fromJsValue_def to_jsvalue_def of_ordinal_ordinal)

lemma fromJsValue_ordinal:
  "fromJsValue (JObj [(''body'', b), (''external_metadata'', x), (''encryption'', JNum n)])
   = (if n = 0
      then Inr \<lparr>body = b, external_metadata = x, encryption = DiffieHellmanChaChaPoly1305\<rparr>
      else if n = 1
      then Inr \<lparr>body = b, external_metadata = x, encryption = None_method\<rparr>
      else Inl ''unknown encryption method'')"
  by (simp add: fromJsValue_def of_ordinal_def)

lemma constructor_reads_envelope:
  "\<exists>w1. ShinkaiMessageWrapper_constructor (spec_module jp jpr ch) (init_world []) (to_jsvalue m)
          = (Inr (Wrapper ShinkaiMessageWrapper 1), w1) \<and>
        fst (ShinkaiMessageWrapper_encryption (spec_module jp jpr ch) w1
               (Wrapper ShinkaiMessageWrapper 1)) = method_name (encryption m)"
  by (simp add: glue_defs heap_defs spec_module_def throw_error_def return_object_def
      return_envelope_def fromJsValue_to_jsvalue Let_def nth_append)

text \<open>
  Claim C7. The serialized envelope carries the encryption method as an ordinal, 0 for
  DiffieHellmanChaChaPoly1305 and 1 for None. Every envelope that is serialized and
  parsed again comes back as itself, its method included. The enum is closed: an
  envelope whose ordinal is 0 or 1 is parsed to the method of that ordinal, and one with
  any other ordinal is refused. Through the glue: the constructor of
  \<^verbatim>\<open>ShinkaiMessageWrapper\<close>, given the serialized form of an envelope, returns an object
  whose accessor \<^verbatim>\<open>encryption\<close> is the name of that envelope's method.
\<close>

theorem encryption_method_roundtrip:
  "(\<forall>b x. js_member (to_jsvalue \<lparr>body = b, external_metadata = x,
                                  encryption = DiffieHellmanChaChaPoly1305\<rparr>) ''encryption''
           = Inr (JNum 0)) \<and>
   (\<forall>b x. js_member (to_jsvalue \<lparr>body = b, external_metadata = x,
                                  encryption = None_method\<rparr>) ''encryption''
           = Inr (JNum 1)) \<and>
   (\<forall>m. fromJsValue (to_jsvalue m) = Inr m) \<and>
   (\<forall>b x n.
      fromJsValue (JObj [(''body'', b), (''external_metadata'', x), (''encryption'', JNum n)])
      = (if n = 0
         then Inr \<lparr>body = b, external_metadata = x, encryption = DiffieHellmanChaChaPoly1305\<rparr>
         else if n = 1
         then Inr \<lparr>body = b, external_metadata = x, encryption = None_method\<rparr>
         else Inl ''unknown encryption method'')) \<and>
   (\<forall>json_parse json_print content_hash m.
      \<exists>w1. ShinkaiMessageWrapper_constructor (spec_module json_parse json_print content_hash)
              (init_world []) (to_jsvalue m)
            = (Inr (Wrapper ShinkaiMessageWrapper 1), w1) \<and>
           fst (ShinkaiMessageWrapper_encryption (spec_module json_parse json_print content_hash)
                  w1 (Wrapper ShinkaiMessageWrapper 1)) = method_name (encryption m))"
proof (intro conjI allI)
  fix m show "fromJsValue (to_jsvalue m) = Inr m"
    by (rule fromJsValue_to_jsvalue)
next
  fix b x n
  show "fromJsValue (JObj [(''body'', b), (''external_metadata'', x), (''encryption'', JNum n)])
        = (if n = 0
           then Inr \<lparr>body = b, external_metadata = x, encryption = DiffieHellmanChaChaPoly1305\<rparr>
           else if n = 1
           then Inr \<lparr>body = b, external_metadata = x, encryption = None_method\<rparr>
           else Inl ''unknown encryption method'')"
    by (rule fromJsValue_ordinal)
next
  fix json_parse json_print content_hash m
  show "\<exists>w1. ShinkaiMessageWrapper_constructor (spec_module json_parse json_print content_hash)
                (init_world []) (to_jsvalue m)
              = (Inr (Wrapper ShinkaiMessageWrapper 1), w1) \<and>
             fst (ShinkaiMessageWrapper_encryption
                    (spec_module json_parse json_print content_hash) w1
                    (Wrapper ShinkaiMessageWrapper 1)) = method_name (encryption m)"
    by (rule constructor_reads_envelope)
qed (simp_all add: to_jsvalue_def)

section \<open>The two ways from text to an envelope\<close>

lemma ts_body_undefined: "ts_body wasm w this = (Inr JUndefined, w)"
  by (simp add: ts_body_def ShinkaiMessageWrapper_get_def ShinkaiMessageWrapper_methods_def)

lemma ts_constructor_first_argument:
  "ts_constructor wasm mapEncryptionMethod w
     (JObj [(''body'', b), (''external_metadata'', x), (''encryption'', n)])
   = (case mapEncryptionMethod n of
        Inl e \<Rightarrow> (Inl e, w)
      | Inr arg2 \<Rightarrow>
          map_prod (map_sum id TsShinkaiMessageWrapper) id
            (ShinkaiMessageWrapper_constructor wasm w b))"
  by (simp add: ts_constructor_def split: sum.split prod.split)

lemma constructor_refuses_ping_body:
  "\<exists>e w1. ShinkaiMessageWrapper_constructor (spec_module json_parse_at_ping jp ch)
             (init_world []) ping_body = (Inl e, w1)"
  by (simp add: glue_defs heap_defs module_defs ping_defs Let_def nth_append)

lemma ts_from_json_str_throws:
  "\<exists>e w1. ts_from_json_str (spec_module json_parse_at_ping jp ch) mapEncryptionMethod
             JSON_parse_at_ping (init_world []) ping_text = (Inl e, w1)"
proof (cases "mapEncryptionMethod (JNum 1)")
  case (Inl e)
  then show ?thesis
    by (simp add: ts_from_json_str_def JSON_parse_at_ping_def ping_message_def
        ts_constructor_first_argument)
next
  case (Inr v)
  from constructor_refuses_ping_body [of jp ch] obtain e w1 where
    "ShinkaiMessageWrapper_constructor (spec_module json_parse_at_ping jp ch)
       (init_world []) ping_body = (Inl e, w1)"
    by blast
  with Inr show ?thesis
    by (simp add: ts_from_json_str_def JSON_parse_at_ping_def ping_message_def
        ts_constructor_first_argument)
qed

lemma wasm_from_json_str_returns:
  "\<exists>w1. ShinkaiMessageWrapper_from_json_str (spec_module json_parse_at_ping jp ch)
           (init_world []) ping_text = (Inr (Wrapper ShinkaiMessageWrapper 1), w1) \<and>
        fst (ShinkaiMessageWrapper_message_body (spec_module json_parse_at_ping jp ch) w1
               (Wrapper ShinkaiMessageWrapper 1)) = Inr ping_body \<and>
        fst (ShinkaiMessageWrapper_external_metadata (spec_module json_parse_at_ping jp ch) w1
               (Wrapper ShinkaiMessageWrapper 1)) = Inr ping_external_metadata \<and>
        fst (ShinkaiMessageWrapper_encryption (spec_module json_parse_at_ping jp ch) w1
               (Wrapper ShinkaiMessageWrapper 1)) = ''None''"
  by (simp add: glue_defs heap_defs module_defs ping_defs Let_def nth_append)

text \<open>
  Claim C10, which the code does not meet. The constructor of the TypeScript wrapper
  passes three arguments to a constructor of the glue that takes one: the glue
  deserializes the body alone, as if it were the whole envelope, and the external
  metadata never reaches it. The accessor \<^verbatim>\<open>body\<close> of the wrapper reads a property the
  glue does not have (its accessor is \<^verbatim>\<open>message_body\<close>) and is \<^verbatim>\<open>undefined\<close> on every
  object. On the serialized ping, with a module that reads the wire envelope of the spec,
  the TypeScript \<^verbatim>\<open>from_json_str\<close> throws, whatever \<^verbatim>\<open>mapEncryptionMethod\<close> does, while
  \<^verbatim>\<open>from_json_str\<close> of the glue returns the envelope with its body, its external metadata
  and the method None.
\<close>

theorem ts_from_json_str_disagrees:
  "(\<forall>(wasm :: 'm exports) mapEncryptionMethod w b x n.
      ts_constructor wasm mapEncryptionMethod w
        (JObj [(''body'', b), (''external_metadata'', x), (''encryption'', n)])
      = (case mapEncryptionMethod n of
           Inl e \<Rightarrow> (Inl e, w)
         | Inr arg2 \<Rightarrow>
             map_prod (map_sum id TsShinkaiMessageWrapper) id
               (ShinkaiMessageWrapper_constructor wasm w b))) \<and>
   (\<forall>(wasm :: 'm exports) w this. ts_body wasm w this = (Inr JUndefined, w)) \<and>
   (\<forall>json_print content_hash mapEncryptionMethod.
      \<exists>e w1. ts_from_json_str (spec_module json_parse_at_ping json_print content_hash)
                mapEncryptionMethod JSON_parse_at_ping (init_world []) ping_text
              = (Inl e, w1)) \<and>
   (\<forall>json_print content_hash.
      \<exists>w1. ShinkaiMessageWrapper_from_json_str
              (spec_module json_parse_at_ping json_print content_hash) (init_world []) ping_text
            = (Inr (Wrapper ShinkaiMessageWrapper 1), w1) \<and>
           fst (ShinkaiMessageWrapper_message_body
                  (spec_module json_parse_at_ping json_print content_hash) w1
                  (Wrapper ShinkaiMessageWrapper 1)) = Inr ping_body \<and>
           fst (ShinkaiMessageWrapper_external_metadata
                  (spec_module json_parse_at_ping json_print content_hash) w1
                  (Wrapper ShinkaiMessageWrapper 1)) = Inr ping_external_metadata \<and>
           fst (ShinkaiMessageWrapper_encryption
                  (spec_module json_parse_at_ping json_print content_hash) w1
                  (Wrapper ShinkaiMessageWrapper 1)) = ''None'')"
proof (intro conjI allI)
  fix wasm :: "'m exports" and mapEncryptionMethod w b x n
  show "ts_constructor wasm mapEncryptionMethod w
          (JObj [(''body'', b), (''external_metadata'', x), (''encryption'', n)])
        = (case mapEncryptionMethod n of
             Inl e \<Rightarrow> (Inl e, w)
           | Inr arg2 \<Rightarrow>
               map_prod (map_sum id TsShinkaiMessageWrapper) id
                 (ShinkaiMessageWrapper_constructor wasm w b))"
    by (rule ts_constructor_first_argument)
next
  fix wasm :: "'m exports" and w this
  show "ts_body wasm w this = (Inr JUndefined, w)"
    by (rule ts_body_undefined)
next
  fix json_print content_hash mapEncryptionMethod
  show "\<exists>e w1. ts_from_json_str (spec_module json_parse_at_ping json_print content_hash)
                  mapEncryptionMethod JSON_parse_at_ping (init_world []) ping_text
                = (Inl e, w1)"
    by (rule ts_from_json_str_throws)
next
  fix json_print content_hash
  show "\<exists>w1. ShinkaiMessageWrapper_from_json_str
                (spec_module json_parse_at_ping json_print content_hash) (init_world []) ping_text
              = (Inr (Wrapper ShinkaiMessageWrapper 1), w1) \<and>
             fst (ShinkaiMessageWrapper_message_body
                    (spec_module json_parse_at_ping json_print content_hash) w1
                    (Wrapper ShinkaiMessageWrapper 1)) = Inr ping_body \<and>
             fst (ShinkaiMessageWrapper_external_metadata
                    (spec_module json_parse_at_ping json_print content_hash) w1
                    (Wrapper ShinkaiMessageWrapper 1)) = Inr ping_external_metadata \<and>
             fst (ShinkaiMessageWrapper_encryption
                    (spec_module json_parse_at_ping json_print content_hash) w1
                    (Wrapper ShinkaiMessageWrapper 1)) = ''None''"
    by (rule wasm_from_json_str_returns)
qed

end
